theory Spec2Isabelle
  imports Complex_Main "HOL-Library.Word" "HOL-Library.Option_ord"
begin

section \<open>JavaScript strings\<close>

text \<open>
  A JavaScript string is a sequence of UTF-16 code units. Literals of the source are
  written \<open>js ''...''\<close>.
\<close>

type_synonym jsstring = "16 word list"

definition js :: "string \<Rightarrow> jsstring" where
  "js s = map of_char s"

text \<open>
  The code units that \<open>String.prototype.trim\<close> and \<open>Number\<close> strip: WhiteSpace
  (TAB, VT, FF, ZWNBSP and the space separators) and LineTerminator (LF, CR, LS, PS).
\<close>

definition is_whitespace :: "16 word \<Rightarrow> bool" where
  "is_whitespace c \<longleftrightarrow>
     c = 0x0009 \<or> c = 0x000A \<or> c = 0x000B \<or> c = 0x000C \<or> c = 0x000D \<or> c = 0x0020 \<or>
     c = 0x00A0 \<or> c = 0x1680 \<or> (0x2000 \<le> c \<and> c \<le> 0x200A) \<or> c = 0x2028 \<or> c = 0x2029 \<or>
     c = 0x202F \<or> c = 0x205F \<or> c = 0x3000 \<or> c = 0xFEFF"

definition trim :: "jsstring \<Rightarrow> jsstring" where
  "trim s = rev (dropWhile is_whitespace (rev (dropWhile is_whitespace s)))"

text \<open>\<open>xs.slice(0, n)\<close>, the only form of \<open>slice\<close> the worker uses (strings and arrays).\<close>

definition slice0 :: "nat \<Rightarrow> 'a list \<Rightarrow> 'a list" where
  "slice0 n xs = take n xs"

fun startsWith :: "jsstring \<Rightarrow> jsstring \<Rightarrow> bool" where
  "startsWith [] s = True"
| "startsWith (p # ps) [] = False"
| "startsWith (p # ps) (c # cs) = (p = c \<and> startsWith ps cs)"

text \<open>\<open>s.includes(pat)\<close>: \<open>pat\<close> occurs somewhere in \<open>s\<close>.\<close>

fun includes_str :: "jsstring \<Rightarrow> jsstring \<Rightarrow> bool" where
  "includes_str pat [] = (pat = [])"
| "includes_str pat (c # cs) = (startsWith pat (c # cs) \<or> includes_str pat cs)"

text \<open>\<open>s.replace(pat, rep)\<close> with a string pattern: the first occurrence only.\<close>

fun replace :: "jsstring \<Rightarrow> jsstring \<Rightarrow> jsstring \<Rightarrow> jsstring" where
  "replace pat rep [] = (if pat = [] then rep else [])"
| "replace pat rep (c # cs) =
     (if startsWith pat (c # cs) then rep @ drop (length pat) (c # cs)
      else c # replace pat rep cs)"

text \<open>\<open>s.split(sep)\<close> for a separator of one code unit; the result is never empty.\<close>

fun split :: "16 word \<Rightarrow> jsstring \<Rightarrow> jsstring list" where
  "split sep [] = [[]]"
| "split sep (c # cs) =
     (if c = sep then [] # split sep cs
      else (case split sep cs of
              [] \<Rightarrow> [[c]]
            | seg # segs \<Rightarrow> (c # seg) # segs))"

text \<open>
  \<open>toLowerCase\<close> on the letters A to Z. The worker applies it to a MIME type and compares
  the result with three ASCII literals; the code units outside A to Z are kept, and none
  of them is lowered by JavaScript to a string of ASCII letters of those literals.
\<close>

definition toLowerCase :: "jsstring \<Rightarrow> jsstring" where
  "toLowerCase s = map (\<lambda>c. if 0x41 \<le> c \<and> c \<le> 0x5A then c + 0x20 else c) s"

section \<open>JavaScript numbers\<close>

text \<open>
  A Number is NaN, an infinity or a finite value. The finite values are kept exact
  (a rational): rounding to a double is monotone and keeps every integer the worker
  compares with (1, 10, 20, 50, 0), so it commutes with the clamps below. The two zeros
  are one value.
\<close>

datatype jsnum = NaN | NegInf | Fin rat | PosInf

fun Math_min :: "jsnum \<Rightarrow> jsnum \<Rightarrow> jsnum" where
  "Math_min NaN y = NaN"
| "Math_min x NaN = NaN"
| "Math_min NegInf y = NegInf"
| "Math_min x NegInf = NegInf"
| "Math_min PosInf y = y"
| "Math_min x PosInf = x"
| "Math_min (Fin a) (Fin b) = Fin (min a b)"

fun Math_max :: "jsnum \<Rightarrow> jsnum \<Rightarrow> jsnum" where
  "Math_max NaN y = NaN"
| "Math_max x NaN = NaN"
| "Math_max PosInf y = PosInf"
| "Math_max x PosInf = PosInf"
| "Math_max NegInf y = y"
| "Math_max x NegInf = x"
| "Math_max (Fin a) (Fin b) = Fin (max a b)"

subsection \<open>\<open>Number(string)\<close>: the StringNumericLiteral grammar\<close>

definition is_digit :: "16 word \<Rightarrow> bool" where
  "is_digit c \<longleftrightarrow> 0x30 \<le> c \<and> c \<le> 0x39"

definition digit_value :: "16 word \<Rightarrow> nat option" where
  "digit_value c =
     (if 0x30 \<le> c \<and> c \<le> 0x39 then Some (unat c - 48)
      else if 0x61 \<le> c \<and> c \<le> 0x66 then Some (unat c - 87)
      else if 0x41 \<le> c \<and> c \<le> 0x46 then Some (unat c - 55)
      else None)"

definition is_radix_digit :: "nat \<Rightarrow> 16 word \<Rightarrow> bool" where
  "is_radix_digit b c = (case digit_value c of None \<Rightarrow> False | Some d \<Rightarrow> d < b)"

definition radix_value :: "nat \<Rightarrow> jsstring \<Rightarrow> nat" where
  "radix_value b ds =
     foldl (\<lambda>acc c. acc * b + (case digit_value c of None \<Rightarrow> 0 | Some d \<Rightarrow> d)) 0 ds"

text \<open>One or more digits of the radix, and nothing else.\<close>

definition radix_digits :: "nat \<Rightarrow> jsstring \<Rightarrow> nat option" where
  "radix_digits b ds =
     (if ds \<noteq> [] \<and> list_all (is_radix_digit b) ds then Some (radix_value b ds) else None)"

definition NonDecimalIntegerLiteral :: "jsstring \<Rightarrow> nat option" where
  "NonDecimalIntegerLiteral s =
     (case s of
        z # p # ds \<Rightarrow>
          if z \<noteq> 0x30 then None
          else if p = 0x78 \<or> p = 0x58 then radix_digits 16 ds
          else if p = 0x6F \<or> p = 0x4F then radix_digits 8 ds
          else if p = 0x62 \<or> p = 0x42 then radix_digits 2 ds
          else None
      | _ \<Rightarrow> None)"

text \<open>The optional exponent part, which must reach the end of the literal.\<close>

definition ExponentPart :: "jsstring \<Rightarrow> int option" where
  "ExponentPart s =
     (case s of
        [] \<Rightarrow> Some 0
      | e # r \<Rightarrow>
          if e = 0x65 \<or> e = 0x45 then
            (case r of
               [] \<Rightarrow> None
             | c # ds \<Rightarrow>
                 if c = 0x2B then map_option int (radix_digits 10 ds)
                 else if c = 0x2D then map_option (\<lambda>n. - int n) (radix_digits 10 ds)
                 else map_option int (radix_digits 10 r))
          else None)"

definition pow10 :: "int \<Rightarrow> rat" where
  "pow10 e = (if 0 \<le> e then 10 ^ nat e else 1 / 10 ^ nat (- e))"

definition StrUnsignedDecimalLiteral :: "jsstring \<Rightarrow> jsnum option" where
  "StrUnsignedDecimalLiteral s =
     (if s = js ''Infinity'' then Some PosInf
      else
        let ip = takeWhile is_digit s;
            r1 = dropWhile is_digit s;
            fp = (case r1 of [] \<Rightarrow> [] | c # r \<Rightarrow> if c = 0x2E then takeWhile is_digit r else []);
            r2 = (case r1 of [] \<Rightarrow> [] | c # r \<Rightarrow> if c = 0x2E then dropWhile is_digit r else r1)
        in if ip = [] \<and> fp = [] then None
           else (case ExponentPart r2 of
                   None \<Rightarrow> None
                 | Some e \<Rightarrow>
                     Some (Fin (of_nat (radix_value 10 (ip @ fp)) * pow10 (e - int (length fp))))))"

fun negate :: "jsnum \<Rightarrow> jsnum" where
  "negate NaN = NaN"
| "negate NegInf = PosInf"
| "negate PosInf = NegInf"
| "negate (Fin q) = Fin (- q)"

definition StrDecimalLiteral :: "jsstring \<Rightarrow> jsnum option" where
  "StrDecimalLiteral s =
     (case s of
        [] \<Rightarrow> None
      | c # r \<Rightarrow>
          if c = 0x2B then StrUnsignedDecimalLiteral r
          else if c = 0x2D then map_option negate (StrUnsignedDecimalLiteral r)
          else StrUnsignedDecimalLiteral s)"

text \<open>\<open>Number(s)\<close> for a string: the empty or blank string is 0, a string outside the grammar is NaN.\<close>

definition StringToNumber :: "jsstring \<Rightarrow> jsnum" where
  "StringToNumber s =
     (let t = trim s in
      if t = [] then Fin 0
      else (case NonDecimalIntegerLiteral t of
              Some n \<Rightarrow> Fin (of_nat n)
            | None \<Rightarrow> (case StrDecimalLiteral t of Some v \<Rightarrow> v | None \<Rightarrow> NaN)))"

section \<open>Requests, form data and responses\<close>

text \<open>A \<open>File\<close> part of a form: its \<open>type\<close> and the bytes \<open>arrayBuffer()\<close> reads.\<close>

record jsfile =
  ftype :: jsstring
  content :: "8 word list"

datatype entry = Text jsstring | File jsfile

text \<open>\<open>FormData\<close> and \<open>URLSearchParams\<close>: the entries in order, names may repeat.\<close>

type_synonym formdata = "(jsstring \<times> entry) list"

type_synonym searchparams = "(jsstring \<times> jsstring) list"

text \<open>\<open>form.get(name)\<close>: the first entry of that name, \<open>None\<close> for \<open>null\<close>.\<close>

definition form_get :: "formdata \<Rightarrow> jsstring \<Rightarrow> entry option" where
  "form_get form n = map_of form n"

definition form_getAll :: "formdata \<Rightarrow> jsstring \<Rightarrow> entry list" where
  "form_getAll form n = map snd (filter (\<lambda>e. fst e = n) form)"

definition params_get :: "searchparams \<Rightarrow> jsstring \<Rightarrow> jsstring option" where
  "params_get ps n = map_of ps n"

text \<open>\<open>v || d\<close> on a form value: \<open>null\<close> and the empty string are falsy, a file is an object.\<close>

definition or_else :: "entry option \<Rightarrow> entry \<Rightarrow> entry" where
  "or_else v d =
     (case v of
        None \<Rightarrow> d
      | Some (Text s) \<Rightarrow> if s = [] then d else Text s
      | Some (File f) \<Rightarrow> File f)"

definition toString :: "entry \<Rightarrow> jsstring" where
  "toString v = (case v of Text s \<Rightarrow> s | File f \<Rightarrow> js ''[object File]'')"

text \<open>\<open>Number(v)\<close> on a form value; an object is converted through its \<open>toString\<close>.\<close>

definition Number :: "entry \<Rightarrow> jsnum" where
  "Number v = StringToNumber (toString v)"

text \<open>\<open>Number(s || n)\<close> on a query parameter, with a number as the default.\<close>

definition Number_param :: "jsstring option \<Rightarrow> rat \<Rightarrow> jsnum" where
  "Number_param v d =
     (case v of None \<Rightarrow> Fin d | Some s \<Rightarrow> if s = [] then Fin d else StringToNumber s)"

record request =
  content_type :: "jsstring option"
  authorization :: "jsstring option"
  formData :: "formdata option"

datatype json =
    JNull
  | JBool bool
  | JNum rat
  | JStr jsstring
  | JArr "json list"
  | JObj "(string \<times> json) list"

datatype body = JSON json | Plain string | Raw "8 word list" jsstring

datatype response = Response (status: nat) (body: body)

datatype error = TypeError | InvalidCharacterError | D1_ERROR

definition json_response :: "json \<Rightarrow> nat \<Rightarrow> response" where
  "json_response data st = Response st (JSON data)"


section \<open>The stores: D1 table \<open>sightings\<close> and KV namespace \<open>IMAGES\<close>\<close>

datatype sighting_status = Pending | Approved

text \<open>
  A row of \<open>sightings\<close> (schema.sql). \<open>name\<close>, \<open>email\<close> and \<open>approved_at\<close> are
  nullable. \<open>photos_json\<close> holds \<open>JSON.stringify\<close> of an array of keys and is only read
  through \<open>JSON.parse\<close>; the column is modelled by the array it encodes.
\<close>

record row =
  row_id :: jsstring
  title :: jsstring
  description :: jsstring
  name :: "jsstring option"
  email :: "jsstring option"
  suspicious_meter :: rat
  photos_json :: "jsstring list"
  submitted_at :: int
  approved_at :: "int option"
  status :: sighting_status

record kv_entry =
  kv_value :: "8 word list"
  metadata_type :: jsstring
  expirationTtl :: nat

text \<open>The calls made to the two stores, in the order they are issued.\<close>

datatype call =
    D1_insert jsstring
  | D1_select_approved
  | D1_select_pending
  | D1_update_approve jsstring
  | D1_select_photos jsstring
  | D1_delete jsstring
  | D1_delete_expired int
  | KV_put jsstring
  | KV_delete jsstring
  | KV_get jsstring

record env =
  DB :: "row list"
  IMAGES :: "jsstring \<rightharpoonup> kv_entry"
  ADMIN_PASSWORD :: "jsstring option"
  calls :: "call list"

definition log_call :: "call \<Rightarrow> env \<Rightarrow> env" where
  "log_call c env = env\<lparr>calls := calls env @ [c]\<rparr>"

text \<open>
  A Number bound to a statement travels as JSON: NaN and the infinities become
  \<open>null\<close>, that is SQL NULL.
\<close>

definition bind_number :: "jsnum \<Rightarrow> rat option" where
  "bind_number n = (case n of Fin q \<Rightarrow> Some q | _ \<Rightarrow> None)"

text \<open>
  The value of a LIMIT or OFFSET expression: SQLite raises an error unless it converts
  to a 64-bit integer without loss.
\<close>

definition sql_integer :: "jsnum \<Rightarrow> int option" where
  "sql_integer n =
     (case bind_number n of
        None \<Rightarrow> None
      | Some q \<Rightarrow>
          if of_int \<lfloor>q\<rfloor> = q \<and> - (2 ^ 63) \<le> \<lfloor>q\<rfloor> \<and> \<lfloor>q\<rfloor> < 2 ^ 63 then Some \<lfloor>q\<rfloor> else None)"

text \<open>
  \<open>LIMIT l OFFSET off\<close>: a negative offset is 0, a negative limit is no limit.
\<close>

definition limit_offset :: "int \<Rightarrow> int \<Rightarrow> 'a list \<Rightarrow> 'a list" where
  "limit_offset l off rows =
     (let rest = drop (nat off) rows in if l < 0 then rest else take (nat l) rest)"

text \<open>
  \<open>INSERT INTO sightings (id, ..., status) VALUES (?, ..., ?)\<close>; \<open>approved_at\<close> is not
  listed and stays NULL. The statement fails on a duplicate primary key and on NULL in
  the NOT NULL column \<open>suspicious_meter\<close>.
\<close>

definition INSERT_sighting ::
  "jsstring \<Rightarrow> jsstring \<Rightarrow> jsstring \<Rightarrow> jsstring \<Rightarrow> jsstring \<Rightarrow> jsnum \<Rightarrow> jsstring list \<Rightarrow> int
     \<Rightarrow> sighting_status \<Rightarrow> env \<Rightarrow> (error + unit) \<times> env" where
  "INSERT_sighting i t d n e meter photos submitted st env =
     (let env' = log_call (D1_insert i) env in
      if i \<in> set (map row_id (DB env)) then (Inl D1_ERROR, env')
      else (case bind_number meter of
              None \<Rightarrow> (Inl D1_ERROR, env')
            | Some m \<Rightarrow>
                (Inr (),
                 env'\<lparr>DB := DB env @
                   [\<lparr>row_id = i, title = t, description = d, name = Some n, email = Some e,
                     suspicious_meter = m, photos_json = photos, submitted_at = submitted,
                     approved_at = None, status = st\<rparr>]\<rparr>)))"

text \<open>The columns the public feed selects: no \<open>email\<close>, no \<open>status\<close>.\<close>

record approved_row =
  a_id :: jsstring
  a_title :: jsstring
  a_description :: jsstring
  a_name :: "jsstring option"
  a_suspicious_meter :: rat
  a_photos_json :: "jsstring list"
  a_submitted_at :: int
  a_approved_at :: "int option"

definition select_approved_columns :: "row \<Rightarrow> approved_row" where
  "select_approved_columns r =
     \<lparr>a_id = row_id r, a_title = title r, a_description = description r, a_name = name r,
      a_suspicious_meter = suspicious_meter r, a_photos_json = photos_json r,
      a_submitted_at = submitted_at r, a_approved_at = approved_at r\<rparr>"

text \<open>
  \<open>SELECT ... WHERE status = 'approved' ORDER BY approved_at DESC LIMIT ? OFFSET ?\<close>.
  Rows with equal keys come in an order SQL leaves open; here the reverse of the stable
  ascending order.
\<close>

definition SELECT_approved :: "jsnum \<Rightarrow> jsnum \<Rightarrow> env \<Rightarrow> (error + approved_row list) \<times> env" where
  "SELECT_approved limit offset env =
     (let env' = log_call D1_select_approved env in
      case sql_integer limit of
        None \<Rightarrow> (Inl D1_ERROR, env')
      | Some l \<Rightarrow>
          (case sql_integer offset of
             None \<Rightarrow> (Inl D1_ERROR, env')
           | Some k \<Rightarrow>
               (Inr (limit_offset l k
                       (map select_approved_columns
                          (rev (sort_key approved_at
                                  (filter (\<lambda>r. status r = Approved) (DB env)))))),
                env')))"

text \<open>The columns the moderation queue selects.\<close>

record pending_row =
  p_id :: jsstring
  p_title :: jsstring
  p_description :: jsstring
  p_name :: "jsstring option"
  p_email :: "jsstring option"
  p_suspicious_meter :: rat
  p_photos_json :: "jsstring list"
  p_submitted_at :: int

definition select_pending_columns :: "row \<Rightarrow> pending_row" where
  "select_pending_columns r =
     \<lparr>p_id = row_id r, p_title = title r, p_description = description r, p_name = name r,
      p_email = email r, p_suspicious_meter = suspicious_meter r,
      p_photos_json = photos_json r, p_submitted_at = submitted_at r\<rparr>"

definition SELECT_pending :: "env \<Rightarrow> pending_row list \<times> env" where
  "SELECT_pending env =
     (map select_pending_columns
        (sort_key submitted_at (filter (\<lambda>r. status r = Pending) (DB env))),
      log_call D1_select_pending env)"

text \<open>
  \<open>UPDATE sightings SET status = 'approved', approved_at = ? WHERE id = ? AND status = 'pending'\<close>;
  the result is \<open>meta.changes\<close>, the number of rows updated.
\<close>

definition UPDATE_approve :: "int \<Rightarrow> jsstring \<Rightarrow> env \<Rightarrow> nat \<times> env" where
  "UPDATE_approve now i env =
     (length (filter (\<lambda>r. row_id r = i \<and> status r = Pending) (DB env)),
      (log_call (D1_update_approve i) env)
        \<lparr>DB := map (\<lambda>r. if row_id r = i \<and> status r = Pending
                         then r\<lparr>status := Approved, approved_at := Some now\<rparr> else r)
                   (DB env)\<rparr>)"

text \<open>\<open>SELECT photos_json FROM sightings WHERE id = ?\<close> with \<open>first()\<close>.\<close>

definition SELECT_photos :: "jsstring \<Rightarrow> env \<Rightarrow> jsstring list option \<times> env" where
  "SELECT_photos i env =
     (map_option photos_json (find (\<lambda>r. row_id r = i) (DB env)),
      log_call (D1_select_photos i) env)"

text \<open>\<open>DELETE FROM sightings WHERE id = ?\<close>\<close>

definition DELETE_sighting :: "jsstring \<Rightarrow> env \<Rightarrow> env" where
  "DELETE_sighting i env =
     (log_call (D1_delete i) env)\<lparr>DB := filter (\<lambda>r. row_id r \<noteq> i) (DB env)\<rparr>"

text \<open>\<open>DELETE FROM sightings WHERE status = 'pending' AND submitted_at < ?\<close>\<close>

definition DELETE_expired :: "int \<Rightarrow> env \<Rightarrow> env" where
  "DELETE_expired cutoff env =
     (log_call (D1_delete_expired cutoff) env)
       \<lparr>DB := filter (\<lambda>r. \<not> (status r = Pending \<and> submitted_at r < cutoff)) (DB env)\<rparr>"

definition IMAGES_put :: "jsstring \<Rightarrow> 8 word list \<Rightarrow> jsstring \<Rightarrow> nat \<Rightarrow> env \<Rightarrow> env" where
  "IMAGES_put key buf ty ttl env =
     (log_call (KV_put key) env)
       \<lparr>IMAGES := (IMAGES env)(key \<mapsto> \<lparr>kv_value = buf, metadata_type = ty, expirationTtl = ttl\<rparr>)\<rparr>"

definition IMAGES_delete :: "jsstring \<Rightarrow> env \<Rightarrow> env" where
  "IMAGES_delete key env = (log_call (KV_delete key) env)\<lparr>IMAGES := (IMAGES env)(key := None)\<rparr>"

definition IMAGES_getWithMetadata :: "jsstring \<Rightarrow> env \<Rightarrow> kv_entry option \<times> env" where
  "IMAGES_getWithMetadata key env = (IMAGES env key, log_call (KV_get key) env)"

section \<open>The worker\<close>

subsection \<open>\<open>isAuthorized\<close>\<close>

definition is_ascii_whitespace :: "16 word \<Rightarrow> bool" where
  "is_ascii_whitespace c \<longleftrightarrow> c = 0x09 \<or> c = 0x0A \<or> c = 0x0C \<or> c = 0x0D \<or> c = 0x20"

definition base64_value :: "16 word \<Rightarrow> nat option" where
  "base64_value c =
     (if 0x41 \<le> c \<and> c \<le> 0x5A then Some (unat c - 65)
      else if 0x61 \<le> c \<and> c \<le> 0x7A then Some (unat c - 71)
      else if 0x30 \<le> c \<and> c \<le> 0x39 then Some (unat c + 4)
      else if c = 0x2B then Some 62
      else if c = 0x2F then Some 63
      else None)"

text \<open>Groups of four 6-bit values give three bytes; a last group of three gives two, of two gives one.\<close>

fun base64_bytes :: "nat list \<Rightarrow> jsstring" where
  "base64_bytes (a # b # c # d # rest) =
     of_nat (a * 4 + b div 16) # of_nat ((b mod 16) * 16 + c div 4) # of_nat ((c mod 4) * 64 + d)
       # base64_bytes rest"
| "base64_bytes [a, b, c] = [of_nat (a * 4 + b div 16), of_nat ((b mod 16) * 16 + c div 4)]"
| "base64_bytes [a, b] = [of_nat (a * 4 + b div 16)]"
| "base64_bytes [a] = []"
| "base64_bytes [] = []"

text \<open>
  \<open>atob\<close> (forgiving-base64 decode): ASCII whitespace is removed, one or two \<open>=\<close> at the
  end of a length divisible by 4 are removed, and the call throws (\<open>None\<close>) on a length
  that leaves remainder 1 and on a code unit outside the base64 alphabet.
\<close>

definition atob :: "jsstring \<Rightarrow> jsstring option" where
  "atob data =
     (let d1 = filter (\<lambda>c. \<not> is_ascii_whitespace c) data;
          d2 = (if length d1 mod 4 = 0 then
                  (if 2 \<le> length d1 \<and> last d1 = 0x3D \<and> last (butlast d1) = 0x3D
                     then butlast (butlast d1)
                   else if d1 \<noteq> [] \<and> last d1 = 0x3D then butlast d1
                   else d1)
                else d1)
      in if length d2 mod 4 = 1 then None
         else if \<not> list_all (\<lambda>c. base64_value c \<noteq> None) d2 then None
         else Some (base64_bytes (map (\<lambda>c. case base64_value c of None \<Rightarrow> 0 | Some v \<Rightarrow> v) d2)))"

text \<open>
  \<open>const [user, pass] = creds.split(':')\<close>: \<open>pass\<close> is the second segment,
  \<open>undefined\<close> (\<open>None\<close>) when there is no colon.
\<close>

definition pass_of :: "jsstring \<Rightarrow> jsstring option" where
  "pass_of creds = (case split 0x3A creds of u # p # rest \<Rightarrow> Some p | _ \<Rightarrow> None)"

text \<open>
  \<open>env.ADMIN_PASSWORD\<close> is \<open>None\<close> when the secret is not configured (\<open>undefined\<close>);
  \<open>===\<close> compares the two options.
\<close>

definition isAuthorized :: "request \<Rightarrow> env \<Rightarrow> error + bool" where
  "isAuthorized request env =
     (let auth = (case authorization request of None \<Rightarrow> [] | Some a \<Rightarrow> a) in
      if \<not> startsWith (js ''Basic '') auth then Inr False
      else (case atob (replace (js ''Basic '') [] auth) of
              None \<Rightarrow> Inl InvalidCharacterError
            | Some creds \<Rightarrow> Inr (pass_of creds = ADMIN_PASSWORD env)))"

subsection \<open>\<open>handleCreateSighting\<close>\<close>

text \<open>The decimal digits of an index, for the template string of the key.\<close>

fun decimal :: "nat \<Rightarrow> jsstring" where
  "decimal n = (if n < 10 then [of_nat n + 0x30] else decimal (n div 10) @ [of_nat (n mod 10) + 0x30])"

declare decimal.simps [simp del]

definition allowed_types :: "jsstring list" where
  "allowed_types = [js ''image/jpeg'', js ''image/png'', js ''image/webp'']"

text \<open>
  The loop over \<open>files.slice(0, 1)\<close>, with its variables \<open>index\<close> and \<open>photos\<close>;
  each \<open>continue\<close> goes on with the next file.
\<close>

fun save_photos :: "jsstring \<Rightarrow> entry list \<Rightarrow> nat \<Rightarrow> jsstring list \<Rightarrow> env \<Rightarrow> jsstring list \<times> env" where
  "save_photos uuid [] index photos env = (photos, env)"
| "save_photos uuid (Text s # files) index photos env = save_photos uuid files index photos env"
| "save_photos uuid (File f # files) index photos env =
     (let ty = toLowerCase (ftype f) in
      if ty \<notin> set allowed_types then save_photos uuid files index photos env
      else
        let buf = content f in
        if length buf > 1 * 1024 * 1024 then save_photos uuid files index photos env
        else
          let key = js ''img:'' @ uuid @ js '':'' @ decimal index
          in save_photos uuid files (index + 1) (photos @ [key])
               (IMAGES_put key buf ty (60 * 60 * 24 * 365) env))"

text \<open>\<open>(form.get(n) || '').toString().trim().slice(0, k)\<close>\<close>

definition text_field :: "formdata \<Rightarrow> string \<Rightarrow> nat \<Rightarrow> jsstring" where
  "text_field form n k = slice0 k (trim (toString (or_else (form_get form (js n)) (Text []))))"

definition meter_of :: "formdata \<Rightarrow> jsnum" where
  "meter_of form =
     Math_max (Fin 1) (Math_min (Fin 10)
       (Number (or_else (form_get form (js ''suspicious_meter'')) (Text (js ''1'')))))"

definition consent_of :: "formdata \<Rightarrow> bool" where
  "consent_of form \<longleftrightarrow>
     form_get form (js ''consent'') = Some (Text (js ''on'')) \<or>
     form_get form (js ''consent'') = Some (Text (js ''true''))"

definition error_response :: "string \<Rightarrow> nat \<Rightarrow> response" where
  "error_response msg st = json_response (JObj [(''error'', JStr (js msg))]) st"

text \<open>
  \<open>uuid\<close> is what \<open>crypto.randomUUID()\<close> returns and \<open>now\<close> what \<open>Date.now()\<close>
  returns; \<open>formData request = None\<close> is a body that \<open>request.formData()\<close> rejects.
\<close>

definition handleCreateSighting ::
  "jsstring \<Rightarrow> int \<Rightarrow> request \<Rightarrow> env \<Rightarrow> (error + response) \<times> env" where
  "handleCreateSighting uuid now request env =
     (let contentType = (case content_type request of None \<Rightarrow> [] | Some h \<Rightarrow> h) in
      if \<not> includes_str (js ''multipart/form-data'') contentType
        then (Inr (error_response ''Use multipart/form-data'' 400), env)
      else
        (case formData request of
           None \<Rightarrow> (Inl TypeError, env)
         | Some form \<Rightarrow>
             let title = text_field form ''title'' 120;
                 description = text_field form ''description'' 5000;
                 name = (let n = text_field form ''name'' 80 in if n = [] then js ''Anonymous'' else n);
                 email = text_field form ''email'' 120;
                 meter = meter_of form;
                 consent = consent_of form
             in if title = [] \<or> description = []
                  then (Inr (error_response ''Missing title/description'' 400), env)
                else if \<not> consent then (Inr (error_response ''Consent required'' 400), env)
                else
                  (case save_photos uuid (slice0 1 (form_getAll form (js ''photos''))) 0 [] env of
                     (photos, env1) \<Rightarrow>
                       (case INSERT_sighting uuid title description name email meter photos now
                               Pending env1 of
                          (Inl e, env2) \<Rightarrow> (Inl e, env2)
                        | (Inr u, env2) \<Rightarrow>
                            (Inr (json_response (JObj [(''ok'', JBool True), (''id'', JStr uuid)]) 201),
                             env2)))))"

subsection \<open>\<open>handleListApproved\<close> and \<open>handleListPending\<close>\<close>

definition json_string_or_null :: "jsstring option \<Rightarrow> json" where
  "json_string_or_null v = (case v of None \<Rightarrow> JNull | Some s \<Rightarrow> JStr s)"

definition approved_item :: "approved_row \<Rightarrow> json" where
  "approved_item r =
     JObj [(''id'', JStr (a_id r)),
           (''title'', JStr (a_title r)),
           (''description'', JStr (a_description r)),
           (''name'', JStr (case a_name r of None \<Rightarrow> js ''Anonymous''
                                | Some n \<Rightarrow> if n = [] then js ''Anonymous'' else n)),
           (''suspicious_meter'', JNum (a_suspicious_meter r)),
           (''photos'', JArr (map JStr (a_photos_json r))),
           (''submitted_at'', JNum (of_int (a_submitted_at r))),
           (''approved_at'', (case a_approved_at r of None \<Rightarrow> JNull | Some t \<Rightarrow> JNum (of_int t)))]"

definition handleListApproved :: "searchparams \<Rightarrow> env \<Rightarrow> (error + response) \<times> env" where
  "handleListApproved searchParams env =
     (let limit = Math_min (Fin 50) (Number_param (params_get searchParams (js ''limit'')) 20);
          offset = Math_max (Fin 0) (Number_param (params_get searchParams (js ''offset'')) 0)
      in case SELECT_approved limit offset env of
           (Inl e, env') \<Rightarrow> (Inl e, env')
         | (Inr rows, env') \<Rightarrow>
             (Inr (json_response (JObj [(''items'', JArr (map approved_item rows))]) 200), env'))"

definition pending_item :: "pending_row \<Rightarrow> json" where
  "pending_item r =
     JObj [(''id'', JStr (p_id r)),
           (''title'', JStr (p_title r)),
           (''description'', JStr (p_description r)),
           (''name'', json_string_or_null (p_name r)),
           (''email'', json_string_or_null (p_email r)),
           (''suspicious_meter'', JNum (p_suspicious_meter r)),
           (''photos'', JArr (map JStr (p_photos_json r))),
           (''submitted_at'', JNum (of_int (p_submitted_at r)))]"

definition handleListPending :: "searchparams \<Rightarrow> env \<Rightarrow> (error + response) \<times> env" where
  "handleListPending searchParams env =
     (case SELECT_pending env of
        (rows, env') \<Rightarrow>
          (Inr (json_response (JObj [(''items'', JArr (map pending_item rows))]) 200), env'))"

subsection \<open>\<open>handleApprove\<close>, \<open>handleReject\<close>, \<open>scheduled\<close>, \<open>handleImage\<close>\<close>

definition handleApprove :: "int \<Rightarrow> jsstring \<Rightarrow> env \<Rightarrow> (error + response) \<times> env" where
  "handleApprove now i env =
     (case UPDATE_approve now i env of
        (changes, env') \<Rightarrow>
          (Inr (json_response (JObj [(''ok'', JBool True), (''changes'', JNum (of_nat changes))]) 200),
           env'))"

text \<open>The loop \<open>for (const key of photos) await env.IMAGES.delete(key)\<close>.\<close>

fun delete_photos :: "jsstring list \<Rightarrow> env \<Rightarrow> env" where
  "delete_photos [] env = env"
| "delete_photos (key # keys) env = delete_photos keys (IMAGES_delete key env)"

definition handleReject :: "jsstring \<Rightarrow> env \<Rightarrow> (error + response) \<times> env" where
  "handleReject i env =
     (case SELECT_photos i env of
        (row, env1) \<Rightarrow>
          let photos = (case row of None \<Rightarrow> [] | Some ps \<Rightarrow> ps);
              env2 = DELETE_sighting i env1;
              env3 = delete_photos photos env2
          in (Inr (json_response (JObj [(''ok'', JBool True)]) 200), env3))"

definition scheduled :: "int \<Rightarrow> env \<Rightarrow> env" where
  "scheduled now env = (let cutoff = now - 48 * 60 * 60 * 1000 in DELETE_expired cutoff env)"

text \<open>\<open>handleImage\<close>, from the decoded key of the path on.\<close>

definition handleImage :: "jsstring \<Rightarrow> env \<Rightarrow> (error + response) \<times> env" where
  "handleImage key env =
     (case IMAGES_getWithMetadata key env of
        (None, env') \<Rightarrow> (Inr (Response 404 (Plain ''Not found'')), env')
      | (Some obj, env') \<Rightarrow>
          (Inr (Response 200
                  (Raw (kv_value obj)
                     (if metadata_type obj = [] then js ''application/octet-stream''
                      else metadata_type obj))),
           env'))"

text \<open>The items of a feed response, and the field names of an item.\<close>

definition items_of :: "error + response \<Rightarrow> json list" where
  "items_of r =
     (case r of
        Inr (Response st (JSON (JObj [(k, JArr xs)]))) \<Rightarrow> if k = ''items'' then xs else []
      | _ \<Rightarrow> [])"

definition field_names :: "json \<Rightarrow> string list" where
  "field_names j = (case j of JObj kvs \<Rightarrow> map fst kvs | _ \<Rightarrow> [])"

definition field :: "string \<Rightarrow> json \<Rightarrow> json option" where
  "field n j = (case j of JObj kvs \<Rightarrow> map_of kvs n | _ \<Rightarrow> None)"

subsection \<open>Runs of the lifecycle\<close>






section \<open>Properties of records and tables\<close>



definition without_email :: "row \<Rightarrow> row" where
  "without_email r = r\<lparr>email := None\<rparr>"

text \<open>The rows the public feed's SELECT yields before LIMIT and OFFSET.\<close>

definition approved_rows :: "row list \<Rightarrow> approved_row list" where
  "approved_rows rows =
     map select_approved_columns
       (rev (sort_key approved_at (filter (\<lambda>r. status r = Approved) rows)))"

section \<open>Example data\<close>

text \<open>A pending sighting with one photo, and the stores that hold it.\<close>

definition example_row :: row where
  "example_row =
     \<lparr>row_id = js ''s1'', title = js ''Big Foot'', description = js ''Saw something'',
      name = Some (js ''Anonymous''), email = Some (js ''a@b.c''), suspicious_meter = 7,
      photos_json = [js ''img:s1:0''], submitted_at = 1000, approved_at = None,
      status = Pending\<rparr>"

definition example_env :: env where
  "example_env =
     \<lparr>DB = [example_row],
      IMAGES = [js ''img:s1:0'' \<mapsto> \<lparr>kv_value = [1, 2, 3], metadata_type = js ''image/png'',
                                      expirationTtl = 31536000\<rparr>],
      ADMIN_PASSWORD = Some (js ''hunter2''),
      calls = []\<rparr>"


definition multipart :: "formdata \<Rightarrow> request" where
  "multipart form =
     \<lparr>content_type = Some (js ''multipart/form-data; boundary=x''), authorization = None,
      formData = Some form\<rparr>"

definition blank_title_form :: formdata where
  "blank_title_form =
     [(js ''title'', Text (js ''   '')),
      (js ''description'', Text (js ''Saw something'')),
      (js ''consent'', Text (js ''true''))]"

text \<open>
  Three records for the clean-up at time 200000000: pending and 200000000 ms old, pending
  and one hour old, approved and 200000000 ms old.
\<close>

definition old_pending_row :: row where
  "old_pending_row = example_row\<lparr>row_id := js ''s2'', submitted_at := 0\<rparr>"

definition recent_pending_row :: row where
  "recent_pending_row = example_row\<lparr>row_id := js ''s3'', submitted_at := 196400000\<rparr>"

definition old_approved_row :: row where
  "old_approved_row =
     example_row\<lparr>row_id := js ''s4'', submitted_at := 0, approved_at := Some 10,
       status := Approved\<rparr>"

definition expiry_env :: env where
  "expiry_env = example_env\<lparr>DB := [old_pending_row, recent_pending_row, old_approved_row]\<rparr>"



text \<open>Fifty-one approved records.\<close>

definition many_approved_env :: env where
  "many_approved_env =
     example_env\<lparr>DB := map (\<lambda>n. example_row\<lparr>row_id := decimal n, status := Approved,
                                   approved_at := Some (2000 + int n)\<rparr>) [0..<51]\<rparr>"

definition other_emails_env :: env where
  "other_emails_env =
     expiry_env\<lparr>DB := map (\<lambda>r. r\<lparr>email := Some (js ''x@y.z'')\<rparr>) (DB expiry_env)\<rparr>"






text \<open>Requests with the credentials \<open>admin:hunter2\<close> and \<open>mod:hunter2\<close>.\<close>

definition admin_request :: request where
  "admin_request =
     \<lparr>content_type = None, authorization = Some (js ''Basic YWRtaW46aHVudGVyMg==''),
      formData = None\<rparr>"

definition mod_request :: request where
  "mod_request = admin_request\<lparr>authorization := Some (js ''Basic bW9kOmh1bnRlcjI='')\<rparr>"

text \<open>A secret with a colon, and the credential \<open>u:se:cret\<close> that presents it.\<close>

definition colon_env :: env where
  "colon_env = example_env\<lparr>ADMIN_PASSWORD := Some (js ''se:cret'')\<rparr>"

definition colon_request :: request where
  "colon_request = admin_request\<lparr>authorization := Some (js ''Basic dTpzZTpjcmV0'')\<rparr>"

section \<open>The stores under a call\<close>

lemma DB_log_call: "DB (log_call c env) = DB env"
  by (simp add: log_call_def)

lemma IMAGES_log_call: "IMAGES (log_call c env) = IMAGES env"
  by (simp add: log_call_def)

lemma calls_log_call: "calls (log_call c env) = calls env @ [c]"
  by (simp add: log_call_def)

lemmas log_call_simps = DB_log_call IMAGES_log_call calls_log_call

lemma DB_delete_photos: "DB (delete_photos keys env) = DB env"
  by (induction keys arbitrary: env) (simp_all add: IMAGES_delete_def log_call_simps)

lemma calls_delete_photos: "calls (delete_photos keys env) = calls env @ map KV_delete keys"
  by (induction keys arbitrary: env) (simp_all add: IMAGES_delete_def log_call_simps)

lemma IMAGES_delete_photos:
  "IMAGES (delete_photos keys env) key = (if key \<in> set keys then None else IMAGES env key)"
  by (induction keys arbitrary: env) (simp_all add: IMAGES_delete_def log_call_simps)

lemma find_filter_neq: "find (\<lambda>r. row_id r = i) (filter (\<lambda>r. row_id r \<noteq> i) rows) = None"
  by (simp add: find_None_iff)

section \<open>Evaluating forms and numbers\<close>

lemmas number_defs = StringToNumber_def trim_def is_whitespace_def NonDecimalIntegerLiteral_def
  StrDecimalLiteral_def StrUnsignedDecimalLiteral_def is_digit_def ExponentPart_def
  radix_digits_def radix_value_def is_radix_digit_def digit_value_def pow10_def js_def










section \<open>Rejection\<close>

text \<open>
  C1. When the look-up of \<open>i\<close> finds the record \<open>r\<close>, \<open>handleReject\<close> returns
  \<open>{ok: true}\<close>; afterwards the look-up of \<open>i\<close> finds nothing, every key of
  \<open>r\<close>'s \<open>photos_json\<close> is absent from the blob store (the image route answers 404),
  and the calls issued are the SELECT of the keys, then the DELETE of the record, then one
  blob delete per key: the keys are read before the record is deleted.
\<close>

theorem reject_deletes_record_and_blobs:
  assumes "find (\<lambda>x. row_id x = i) (DB env) = Some r"
  shows "fst (handleReject i env) = Inr (json_response (JObj [(''ok'', JBool True)]) 200)
    \<and> find (\<lambda>x. row_id x = i) (DB (snd (handleReject i env))) = None
    \<and> DB (snd (handleReject i env)) = filter (\<lambda>x. row_id x \<noteq> i) (DB env)
    \<and> (\<forall>key \<in> set (photos_json r).
          IMAGES (snd (handleReject i env)) key = None
        \<and> fst (handleImage key (snd (handleReject i env))) = Inr (Response 404 (Plain ''Not found'')))
    \<and> calls (snd (handleReject i env)) =
        calls env @ [D1_select_photos i, D1_delete i] @ map KV_delete (photos_json r)"
  using assms
  by (simp add: handleReject_def SELECT_photos_def DELETE_sighting_def Let_def log_call_simps
      DB_delete_photos calls_delete_photos IMAGES_delete_photos find_filter_neq handleImage_def
      IMAGES_getWithMetadata_def)

theorem reject_deletes_record_and_blobs_witness:
  "find (\<lambda>x. row_id x = js ''s1'') (DB example_env) = Some example_row
   \<and> IMAGES example_env (js ''img:s1:0'') \<noteq> None
   \<and> DB (snd (handleReject (js ''s1'') example_env)) = []
   \<and> IMAGES (snd (handleReject (js ''s1'') example_env)) (js ''img:s1:0'') = None
   \<and> calls (snd (handleReject (js ''s1'') example_env))
       = [D1_select_photos (js ''s1''), D1_delete (js ''s1''), KV_delete (js ''img:s1:0'')]"
proof -
  have found: "find (\<lambda>x. row_id x = js ''s1'') (DB example_env) = Some example_row"
    by (simp add: example_env_def example_row_def)
  from reject_deletes_record_and_blobs [OF found] show ?thesis
    using found by (simp add: example_env_def example_row_def)
qed

section \<open>Validation before any write\<close>

lemma slice0_Nil_iff: "slice0 (Suc k) xs = [] \<longleftrightarrow> xs = []"
  by (cases xs) (simp_all add: slice0_def)

lemma text_field_empty:
  "0 < k \<Longrightarrow>
   text_field form n k = [] \<longleftrightarrow> trim (toString (or_else (form_get form (js n)) (Text []))) = []"
  by (cases k) (simp_all add: text_field_def slice0_Nil_iff)

text \<open>
  C3. For a submission whose title or description is empty after trimming, or whose
  consent is neither \<open>on\<close> nor \<open>true\<close>, \<open>handleCreateSighting\<close> answers 400 with an
  error message and returns the stores as they were: no row, no blob, and no call to
  either store.
\<close>

theorem invalid_submission_rejected_without_write:
  assumes "formData request = Some form"
    and "trim (toString (or_else (form_get form (js ''title'')) (Text []))) = []
       \<or> trim (toString (or_else (form_get form (js ''description'')) (Text []))) = []
       \<or> \<not> consent_of form"
  shows "\<exists>msg. handleCreateSighting uuid now request env = (Inr (error_response msg 400), env)"
  using assms
  by (auto simp: handleCreateSighting_def Let_def text_field_empty)

theorem invalid_submission_rejected_without_write_witness:
  "formData (multipart blank_title_form) = Some blank_title_form
   \<and> trim (toString (or_else (form_get blank_title_form (js ''title'')) (Text []))) = []
   \<and> (\<exists>msg. handleCreateSighting (js ''u1'') 5000 (multipart blank_title_form) example_env
              = (Inr (error_response msg 400), example_env))"
proof -
  have parsed: "formData (multipart blank_title_form) = Some blank_title_form"
    by (simp add: multipart_def)
  have blank: "trim (toString (or_else (form_get blank_title_form (js ''title'')) (Text []))) = []"
    by (simp add: blank_title_form_def form_get_def or_else_def toString_def trim_def
        is_whitespace_def js_def)
  from invalid_submission_rejected_without_write [OF parsed disjI1 [OF blank]]
  show ?thesis using parsed blank by blast
qed

section \<open>Approval\<close>

lemma approve_changes_twice:
  "filter (\<lambda>r. row_id r = i \<and> status r = Pending)
     (map (\<lambda>r. if row_id r = i \<and> status r = Pending
                then r\<lparr>status := Approved, approved_at := Some now\<rparr> else r) rows) = []"
  by (induction rows) auto

lemma approve_map_twice:
  "map (\<lambda>r. if row_id r = i \<and> status r = Pending
                then r\<lparr>status := Approved, approved_at := Some now2\<rparr> else r)
     (map (\<lambda>r. if row_id r = i \<and> status r = Pending
                then r\<lparr>status := Approved, approved_at := Some now1\<rparr> else r) rows)
   = map (\<lambda>r. if row_id r = i \<and> status r = Pending
                then r\<lparr>status := Approved, approved_at := Some now1\<rparr> else r) rows"
  by (induction rows) auto

lemma approve_not_pending:
  "\<forall>r \<in> set rows. row_id r = i \<longrightarrow> status r \<noteq> Pending \<Longrightarrow>
   filter (\<lambda>r. row_id r = i \<and> status r = Pending) rows = [] \<and>
   map (\<lambda>r. if row_id r = i \<and> status r = Pending
                then r\<lparr>status := Approved, approved_at := Some now\<rparr> else r) rows = rows"
  by (induction rows) auto

lemma approve_pending_once:
  "distinct (map row_id rows) \<Longrightarrow> r \<in> set rows \<Longrightarrow> status r = Pending \<Longrightarrow>
   length (filter (\<lambda>x. row_id x = row_id r \<and> status x = Pending) rows) = 1 \<and>
   find (\<lambda>x. row_id x = row_id r)
     (map (\<lambda>x. if row_id x = row_id r \<and> status x = Pending
                then x\<lparr>status := Approved, approved_at := Some now\<rparr> else x) rows)
     = Some (r\<lparr>status := Approved, approved_at := Some now\<rparr>)"
proof (induction rows)
  case Nil
  then show ?case by simp
next
  case (Cons x rows)
  show ?case
  proof (cases "x = r")
    case True
    with Cons.prems have "\<forall>y \<in> set rows. row_id y = row_id r \<longrightarrow> status y \<noteq> Pending"
      by (auto simp: image_iff)
    then have "filter (\<lambda>x. row_id x = row_id r \<and> status x = Pending) rows = []"
      using approve_not_pending by blast
    with True Cons.prems show ?thesis by simp
  next
    case False
    with Cons.prems have "r \<in> set rows" "row_id x \<noteq> row_id r" "distinct (map row_id rows)"
      by (auto simp: image_iff)
    with Cons.IH Cons.prems show ?thesis by simp
  qed
qed

text \<open>
  C4. A second \<open>handleApprove\<close> of the same id reports \<open>changes: 0\<close> and leaves the
  table as the first call left it, whatever the two clock readings. The first call
  reports 0 and changes nothing when no record of that id is pending (unknown id, or
  already approved); with the ids of the table distinct (the primary key) and a pending
  record of that id, it reports 1 and that record becomes approved with \<open>approved_at\<close> the
  clock reading of the first call. No blob is touched.
\<close>

theorem approve_idempotent:
  "fst (handleApprove now2 i (snd (handleApprove now1 i env)))
      = Inr (json_response (JObj [(''ok'', JBool True), (''changes'', JNum 0)]) 200)
   \<and> DB (snd (handleApprove now2 i (snd (handleApprove now1 i env))))
      = DB (snd (handleApprove now1 i env))
   \<and> IMAGES (snd (handleApprove now2 i (snd (handleApprove now1 i env)))) = IMAGES env
   \<and> ((\<forall>r \<in> set (DB env). row_id r = i \<longrightarrow> status r \<noteq> Pending) \<longrightarrow>
        fst (handleApprove now1 i env)
          = Inr (json_response (JObj [(''ok'', JBool True), (''changes'', JNum 0)]) 200)
        \<and> DB (snd (handleApprove now1 i env)) = DB env)
   \<and> (\<forall>r \<in> set (DB env).
        distinct (map row_id (DB env)) \<and> row_id r = i \<and> status r = Pending \<longrightarrow>
        fst (handleApprove now1 i env)
          = Inr (json_response (JObj [(''ok'', JBool True), (''changes'', JNum 1)]) 200)
        \<and> find (\<lambda>x. row_id x = i) (DB (snd (handleApprove now1 i env)))
          = Some (r\<lparr>status := Approved, approved_at := Some now1\<rparr>))"
  using approve_not_pending [of "DB env" i now1] approve_pending_once [of "DB env" _ now1]
  by (auto simp: handleApprove_def UPDATE_approve_def log_call_simps approve_changes_twice
      approve_map_twice)

theorem approve_idempotent_witness:
  "example_row \<in> set (DB example_env)
   \<and> distinct (map row_id (DB example_env))
   \<and> row_id example_row = js ''s1'' \<and> status example_row = Pending
   \<and> fst (handleApprove 2000 (js ''s1'') example_env)
       = Inr (json_response (JObj [(''ok'', JBool True), (''changes'', JNum 1)]) 200)
   \<and> find (\<lambda>x. row_id x = js ''s1'') (DB (snd (handleApprove 2000 (js ''s1'') example_env)))
       = Some (example_row\<lparr>status := Approved, approved_at := Some 2000\<rparr>)
   \<and> fst (handleApprove 3000 (js ''s1'') (snd (handleApprove 2000 (js ''s1'') example_env)))
       = Inr (json_response (JObj [(''ok'', JBool True), (''changes'', JNum 0)]) 200)
   \<and> DB (snd (handleApprove 3000 (js ''s1'') (snd (handleApprove 2000 (js ''s1'') example_env))))
       = DB (snd (handleApprove 2000 (js ''s1'') example_env))
   \<and> js ''zz'' \<notin> set (map row_id (DB example_env))
   \<and> fst (handleApprove 2000 (js ''zz'') example_env)
       = Inr (json_response (JObj [(''ok'', JBool True), (''changes'', JNum 0)]) 200)"
proof -
  have facts: "example_row \<in> set (DB example_env)" "distinct (map row_id (DB example_env))"
    "row_id example_row = js ''s1''" "status example_row = Pending"
    "js ''zz'' \<notin> set (map row_id (DB example_env))"
    "\<forall>r \<in> set (DB example_env). row_id r = js ''zz'' \<longrightarrow> status r \<noteq> Pending"
    by (simp_all add: example_env_def example_row_def js_def)
  from approve_idempotent [of 3000 "js ''s1''" 2000 example_env]
    approve_idempotent [of 3000 "js ''zz''" 2000 example_env]
  show ?thesis using facts by blast
qed

section \<open>Scheduled expiry\<close>

text \<open>
  C5. \<open>scheduled\<close> keeps exactly the records that are not both pending and submitted
  more than 48 hours (172800000 ms) before the clock reading: every approved record and
  every record at most one hour old stays, every pending record older than 48 hours goes.
  The blob store is unchanged and the only call is the one DELETE statement on the table.
\<close>

theorem expiry_deletes_old_pending_records_only:
  "DB (scheduled now env)
     = filter (\<lambda>r. \<not> (status r = Pending \<and> 48 * 60 * 60 * 1000 < now - submitted_at r)) (DB env)
   \<and> IMAGES (scheduled now env) = IMAGES env
   \<and> calls (scheduled now env) = calls env @ [D1_delete_expired (now - 172800000)]
   \<and> (\<forall>r \<in> set (DB env). status r = Approved \<longrightarrow> r \<in> set (DB (scheduled now env)))
   \<and> (\<forall>r \<in> set (DB env). now - submitted_at r \<le> 60 * 60 * 1000 \<longrightarrow> r \<in> set (DB (scheduled now env)))
   \<and> (\<forall>r \<in> set (DB env). status r = Pending \<and> 48 * 60 * 60 * 1000 < now - submitted_at r
         \<longrightarrow> r \<notin> set (DB (scheduled now env)))"
proof -
  have eq: "\<And>s::int. s < now - 172800000 \<longleftrightarrow> 172800000 < now - s"
    by arith
  have keep: "\<And>s::int. now - s \<le> 3600000 \<Longrightarrow> \<not> 172800000 < now - s"
    by arith
  show ?thesis
    by (auto simp: scheduled_def DELETE_expired_def Let_def log_call_simps eq dest: keep)
qed

theorem expiry_deletes_old_pending_records_only_witness:
  "set (DB expiry_env) = {old_pending_row, recent_pending_row, old_approved_row}
   \<and> status old_approved_row = Approved
   \<and> 200000000 - submitted_at recent_pending_row \<le> 60 * 60 * 1000
   \<and> status old_pending_row = Pending
   \<and> 48 * 60 * 60 * 1000 < 200000000 - submitted_at old_pending_row
   \<and> DB (scheduled 200000000 expiry_env) = [recent_pending_row, old_approved_row]
   \<and> IMAGES (scheduled 200000000 expiry_env) (js ''img:s1:0'') \<noteq> None"
proof -
  have facts: "set (DB expiry_env) = {old_pending_row, recent_pending_row, old_approved_row}"
    "status old_approved_row = Approved"
    "200000000 - submitted_at recent_pending_row \<le> 60 * 60 * 1000"
    "status old_pending_row = Pending"
    "48 * 60 * 60 * 1000 < 200000000 - submitted_at old_pending_row"
    "status recent_pending_row = Pending"
    "\<not> 48 * 60 * 60 * 1000 < 200000000 - submitted_at recent_pending_row"
    "IMAGES expiry_env (js ''img:s1:0'') \<noteq> None"
    by (simp_all add: expiry_env_def old_pending_row_def recent_pending_row_def
        old_approved_row_def example_row_def example_env_def)
  from expiry_deletes_old_pending_records_only [of 200000000 expiry_env]
  show ?thesis using facts by (simp add: expiry_env_def)
qed

section \<open>The suspicion level\<close>

text \<open>The numeric inputs 0 and 99 are clamped to 1 and 10; an absent field is 1.\<close>

lemma meter_examples:
  "meter_of [(js ''suspicious_meter'', Text (js ''0''))] = Fin 1"
  "meter_of [(js ''suspicious_meter'', Text (js ''99''))] = Fin 10"
  "meter_of [(js ''suspicious_meter'', Text (js ''7''))] = Fin 7"
  "meter_of [] = Fin 1"
  by (simp_all add: meter_of_def form_get_def or_else_def Number_def toString_def number_defs)






section \<open>The lifecycle invariant\<close>


















section \<open>The two feeds\<close>

lemma insort_key_map:
  "insort_key k (g x) (map g xs) = map g (insort_key (k \<circ> g) x xs)"
  by (induction xs) simp_all

lemma sort_key_map: "sort_key k (map g xs) = map g (sort_key (k \<circ> g) xs)"
  by (induction xs) (simp_all add: insort_key_map [unfolded o_def] o_def)

lemma approved_rows_without_email: "approved_rows (map without_email rows) = approved_rows rows"
proof -
  have 1: "(\<lambda>r. status r = Approved) \<circ> without_email = (\<lambda>r. status r = Approved)"
    by (rule ext) (simp add: without_email_def)
  have 2: "approved_at \<circ> without_email = approved_at"
    by (rule ext) (simp add: without_email_def)
  have 3: "select_approved_columns \<circ> without_email = select_approved_columns"
    by (rule ext) (simp add: without_email_def select_approved_columns_def)
  show ?thesis
    by (simp add: approved_rows_def filter_map sort_key_map rev_map 1 2 3)
qed

lemma feed_depends_on_approved_rows:
  "fst (handleListApproved sp env) =
     (let limit = Math_min (Fin 50) (Number_param (params_get sp (js ''limit'')) 20);
          offset = Math_max (Fin 0) (Number_param (params_get sp (js ''offset'')) 0)
      in case sql_integer limit of None \<Rightarrow> Inl D1_ERROR
         | Some l \<Rightarrow> (case sql_integer offset of None \<Rightarrow> Inl D1_ERROR
             | Some k \<Rightarrow> Inr (json_response (JObj [(''items'',
                  JArr (map approved_item (limit_offset l k (approved_rows (DB env)))))]) 200)))"
  by (simp add: handleListApproved_def SELECT_approved_def Let_def approved_rows_def
      split: option.splits)

lemma items_approved:
  "set (items_of (fst (handleListApproved sp env))) \<subseteq> range approved_item"
  by (auto simp: feed_depends_on_approved_rows Let_def items_of_def json_response_def
      split: option.splits)

lemma items_pending:
  "items_of (fst (handleListPending sp env)) =
     map (pending_item \<circ> select_pending_columns)
       (sort_key submitted_at (filter (\<lambda>r. status r = Pending) (DB env)))"
  by (simp add: handleListPending_def SELECT_pending_def items_of_def json_response_def)

text \<open>
  C7. No item of the public feed has a field \<open>email\<close> or \<open>reporterEmail\<close>, and the
  response of the public feed is the same on two tables that differ only in the
  \<open>email\<close> column. Every item of the moderation queue has the field \<open>email\<close>, holding
  the \<open>email\<close> of its record (JSON \<open>null\<close> for NULL), in queue order.
\<close>

theorem feed_hides_email_queue_shows_it:
  "(\<forall>item \<in> set (items_of (fst (handleListApproved sp env))).
       ''email'' \<notin> set (field_names item) \<and> ''reporterEmail'' \<notin> set (field_names item))
   \<and> (map without_email (DB env1) = map without_email (DB env2) \<longrightarrow>
        fst (handleListApproved sp env1) = fst (handleListApproved sp env2))
   \<and> (\<forall>item \<in> set (items_of (fst (handleListPending sp env))). ''email'' \<in> set (field_names item))
   \<and> map (field ''email'') (items_of (fst (handleListPending sp env)))
       = map (\<lambda>r. Some (json_string_or_null (email r)))
           (sort_key submitted_at (filter (\<lambda>r. status r = Pending) (DB env)))"
proof -
  have a: "\<forall>item \<in> set (items_of (fst (handleListApproved sp env))).
       ''email'' \<notin> set (field_names item) \<and> ''reporterEmail'' \<notin> set (field_names item)"
    using items_approved [of sp env] by (auto simp: approved_item_def field_names_def)
  have b: "map without_email (DB env1) = map without_email (DB env2) \<longrightarrow>
        fst (handleListApproved sp env1) = fst (handleListApproved sp env2)"
  proof
    assume "map without_email (DB env1) = map without_email (DB env2)"
    then have "approved_rows (DB env1) = approved_rows (DB env2)"
      by (metis approved_rows_without_email)
    then show "fst (handleListApproved sp env1) = fst (handleListApproved sp env2)"
      by (simp add: feed_depends_on_approved_rows split: option.splits)
  qed
  have c: "\<forall>item \<in> set (items_of (fst (handleListPending sp env))).
       ''email'' \<in> set (field_names item)"
    by (auto simp: items_pending pending_item_def field_names_def)
  have d: "map (field ''email'') (items_of (fst (handleListPending sp env)))
       = map (\<lambda>r. Some (json_string_or_null (email r)))
           (sort_key submitted_at (filter (\<lambda>r. status r = Pending) (DB env)))"
    by (simp add: items_pending pending_item_def field_def select_pending_columns_def)
  from a b c d show ?thesis by blast
qed

lemma no_params:
  "Number_param (params_get [] (js ''limit'')) 20 = Fin 20"
  "Number_param (params_get [] (js ''offset'')) 0 = Fin 0"
  by (simp_all add: params_get_def Number_param_def)

lemma sql_integer_examples: "sql_integer (Fin 20) = Some 20" "sql_integer (Fin 0) = Some 0"
  by (simp_all add: sql_integer_def bind_number_def)

theorem feed_hides_email_queue_shows_it_witness:
  "map without_email (DB expiry_env) = map without_email (DB other_emails_env)
   \<and> DB expiry_env \<noteq> DB other_emails_env
   \<and> fst (handleListApproved [] expiry_env) = fst (handleListApproved [] other_emails_env)
   \<and> map field_names (items_of (fst (handleListApproved [] expiry_env)))
       = [[''id'', ''title'', ''description'', ''name'', ''suspicious_meter'', ''photos'',
           ''submitted_at'', ''approved_at'']]
   \<and> map field_names (items_of (fst (handleListPending [] other_emails_env)))
       = [[''id'', ''title'', ''description'', ''name'', ''email'', ''suspicious_meter'',
           ''photos'', ''submitted_at''],
          [''id'', ''title'', ''description'', ''name'', ''email'', ''suspicious_meter'',
           ''photos'', ''submitted_at'']]
   \<and> map (field ''email'') (items_of (fst (handleListPending [] other_emails_env)))
       = [Some (JStr (js ''x@y.z'')), Some (JStr (js ''x@y.z''))]"
proof -
  have same: "map without_email (DB expiry_env) = map without_email (DB other_emails_env)"
    by (simp add: other_emails_env_def expiry_env_def without_email_def)
  have differ: "DB expiry_env \<noteq> DB other_emails_env"
    by (simp add: other_emails_env_def expiry_env_def old_pending_row_def example_row_def js_def)
  have approved: "approved_rows (DB expiry_env) = [select_approved_columns old_approved_row]"
    by (simp add: approved_rows_def expiry_env_def old_pending_row_def recent_pending_row_def
        old_approved_row_def example_row_def)
  have names: "map field_names (items_of (fst (handleListApproved [] expiry_env)))
       = [[''id'', ''title'', ''description'', ''name'', ''suspicious_meter'', ''photos'',
           ''submitted_at'', ''approved_at'']]"
    by (simp add: feed_depends_on_approved_rows no_params sql_integer_examples approved
        limit_offset_def items_of_def json_response_def approved_item_def field_names_def)
  have pending: "sort_key submitted_at (filter (\<lambda>r. status r = Pending) (DB other_emails_env))
      = [old_pending_row\<lparr>email := Some (js ''x@y.z'')\<rparr>,
         recent_pending_row\<lparr>email := Some (js ''x@y.z'')\<rparr>]"
    by (simp add: other_emails_env_def expiry_env_def old_pending_row_def recent_pending_row_def
        old_approved_row_def example_row_def)
  have queue: "map field_names (items_of (fst (handleListPending [] other_emails_env)))
       = [[''id'', ''title'', ''description'', ''name'', ''email'', ''suspicious_meter'',
           ''photos'', ''submitted_at''],
          [''id'', ''title'', ''description'', ''name'', ''email'', ''suspicious_meter'',
           ''photos'', ''submitted_at'']]"
    by (simp add: items_pending pending pending_item_def field_names_def)
  from feed_hides_email_queue_shows_it [of "[]" expiry_env expiry_env other_emails_env]
    feed_hides_email_queue_shows_it [of "[]" other_emails_env expiry_env other_emails_env]
  show ?thesis
    using same differ names queue by (simp add: pending json_string_or_null_def)
qed

section \<open>The page of the public feed\<close>

lemma length_limit_offset:
  "0 \<le> l \<Longrightarrow> l \<le> n \<Longrightarrow> length (limit_offset l k rows) \<le> nat n"
  by (simp add: limit_offset_def)

lemma sql_integer_capped:
  "sql_integer (Math_min (Fin 50) (Fin q)) = Some l \<Longrightarrow> 0 \<le> q \<Longrightarrow> 0 \<le> l \<and> l \<le> 50"
  by (auto simp: sql_integer_def bind_number_def min_def floor_le_iff split: if_splits)

text \<open>A limit that is absent gives at most 20 items; one that is not negative at most 50.\<close>

lemma nonnegative_limit_bounded:
  assumes "Number_param (params_get sp (js ''limit'')) 20 = Fin q" "0 \<le> q"
  shows "length (items_of (fst (handleListApproved sp env))) \<le> 50"
proof (cases "sql_integer (Math_min (Fin 50) (Fin q))")
  case None
  then show ?thesis
    by (simp add: feed_depends_on_approved_rows assms(1) Let_def items_of_def)
next
  case (Some l)
  with sql_integer_capped [OF Some assms(2)] length_limit_offset [of l 50]
  show ?thesis
    by (auto simp: feed_depends_on_approved_rows assms(1) Let_def items_of_def json_response_def
        split: option.splits)
qed

lemma absent_limit_bounded:
  assumes "params_get sp (js ''limit'') = None"
  shows "length (items_of (fst (handleListApproved sp env))) \<le> 20"
proof -
  have "sql_integer (Math_min (Fin 50) (Fin 20)) = Some 20"
    by (simp add: sql_integer_def bind_number_def)
  with length_limit_offset [of 20 20] show ?thesis
    by (auto simp: feed_depends_on_approved_rows assms Number_param_def Let_def items_of_def
        json_response_def split: option.splits)
qed

lemma limit_minus_one:
  "Number_param (params_get [(js ''limit'', js ''-1'')] (js ''limit'')) 20 = Fin (- 1)"
  "Number_param (params_get [(js ''limit'', js ''-1'')] (js ''offset'')) 0 = Fin 0"
  by (simp_all add: params_get_def Number_param_def number_defs)

lemma length_limit_offset_unbounded:
  "l < 0 \<Longrightarrow> k \<le> 0 \<Longrightarrow> length (limit_offset l k rows) = length rows"
  by (simp add: limit_offset_def)

text \<open>With \<open>limit=-1\<close> the feed returns every approved record.\<close>

lemma negative_limit_unbounded:
  "length (items_of (fst (handleListApproved [(js ''limit'', js ''-1'')] env)))
     = length (filter (\<lambda>r. status r = Approved) (DB env))"
  by (simp add: handleListApproved_def limit_minus_one SELECT_approved_def
      sql_integer_def bind_number_def Let_def items_of_def json_response_def
      length_limit_offset_unbounded)

text \<open>
  C9, at the request \<open>?limit=-1\<close> on a table of 51 approved records: the limit bound to
  the statement is \<open>Math.min(50, -1) = -1\<close>, which SQLite reads as no limit, and the
  response holds 51 items.
\<close>

theorem negative_limit_returns_more_than_50:
  "length (filter (\<lambda>r. status r = Approved) (DB many_approved_env)) = 51
   \<and> Math_min (Fin 50) (Number_param (params_get [(js ''limit'', js ''-1'')] (js ''limit'')) 20)
       = Fin (- 1)
   \<and> length (items_of (fst (handleListApproved [(js ''limit'', js ''-1'')] many_approved_env))) = 51"
  by (simp add: negative_limit_unbounded limit_minus_one many_approved_env_def o_def)

section \<open>Attachments\<close>








section \<open>The operator credential\<close>

lemma startsWith_iff: "startsWith p s \<longleftrightarrow> (\<exists>t. s = p @ t)"
  by (induction p s rule: startsWith.induct) auto

lemma replace_prefix: "replace p [] (p @ t) = t"
proof (cases "p @ t")
  case Nil
  then show ?thesis by simp
next
  case (Cons c cs)
  have "startsWith p (p @ t)" by (simp add: startsWith_iff)
  with Cons have "replace p [] (c # cs) = drop (length p) (c # cs)" by simp
  also have "\<dots> = t" by (simp add: Cons [symmetric])
  finally show ?thesis by (simp add: Cons)
qed

lemma split_not_Nil: "split sep s \<noteq> []"
  by (induction s) (auto split: list.splits)

lemma split_no_sep: "sep \<notin> set x \<Longrightarrow> split sep x = [x]"
  by (induction x) auto

lemma split_at_first: "sep \<notin> set x \<Longrightarrow> split sep (x @ sep # t) = x # split sep t"
  by (induction x) auto

lemma split_Cons:
  "split sep s = x # xs \<Longrightarrow>
   sep \<notin> set x \<and> ((xs = [] \<and> s = x) \<or> (\<exists>t. s = x @ sep # t \<and> split sep t = xs))"
proof (induction s arbitrary: x xs)
  case Nil
  then show ?case by auto
next
  case (Cons c s)
  show ?case
  proof (cases "c = sep")
    case True
    with Cons.prems show ?thesis by auto
  next
    case False
    obtain y ys where y: "split sep s = y # ys"
      using split_not_Nil [of sep s] by (cases "split sep s") auto
    with False Cons.prems have x: "x = c # y" "xs = ys" by auto
    from Cons.IH [OF y] False x show ?thesis by auto
  qed
qed

lemma pass_of_iff:
  "pass_of creds = Some p \<longleftrightarrow>
     (\<exists>u rest. creds = u @ 0x3A # p @ rest \<and> 0x3A \<notin> set u \<and> 0x3A \<notin> set p
        \<and> (rest = [] \<or> (\<exists>t. rest = 0x3A # t)))"
proof
  assume "pass_of creds = Some p"
  then obtain u rest where s: "split 0x3A creds = u # p # rest"
    by (auto simp: pass_of_def split: list.splits)
  from split_Cons [OF s] obtain t where t: "0x3A \<notin> set u" "creds = u @ 0x3A # t"
    "split 0x3A t = p # rest"
    by auto
  from split_Cons [OF t(3)] have "0x3A \<notin> set p" "t = p \<or> (\<exists>t'. t = p @ 0x3A # t')"
    by auto
  with t show "\<exists>u rest. creds = u @ 0x3A # p @ rest \<and> 0x3A \<notin> set u \<and> 0x3A \<notin> set p
        \<and> (rest = [] \<or> (\<exists>t. rest = 0x3A # t))"
    by (metis append_Nil2)
next
  assume "\<exists>u rest. creds = u @ 0x3A # p @ rest \<and> 0x3A \<notin> set u \<and> 0x3A \<notin> set p
        \<and> (rest = [] \<or> (\<exists>t. rest = 0x3A # t))"
  then obtain u rest where c: "creds = u @ 0x3A # p @ rest" "0x3A \<notin> set u" "0x3A \<notin> set p"
    "rest = [] \<or> (\<exists>t. rest = 0x3A # t)"
    by blast
  from c(4) have "\<exists>segs. split 0x3A (p @ rest) = p # segs"
    using split_no_sep [OF c(3)] split_at_first [OF c(3)] by auto
  then show "pass_of creds = Some p"
    using split_at_first [OF c(2), of "p @ rest"] c(1) by (auto simp: pass_of_def)
qed

lemma pass_of_no_colon: "pass_of creds = Some p \<Longrightarrow> 0x3A \<notin> set p"
  unfolding pass_of_iff by blast

lemma isAuthorized_iff:
  "isAuthorized request env = Inr True \<longleftrightarrow>
     (\<exists>payload creds. authorization request = Some (js ''Basic '' @ payload)
        \<and> atob payload = Some creds \<and> pass_of creds = ADMIN_PASSWORD env)"
proof (cases "authorization request")
  case None
  then show ?thesis by (simp add: isAuthorized_def js_def)
next
  case (Some auth)
  show ?thesis
  proof (cases "startsWith (js ''Basic '') auth")
    case False
    with Some show ?thesis by (auto simp: isAuthorized_def startsWith_iff)
  next
    case True
    then obtain payload where p: "auth = js ''Basic '' @ payload"
      by (auto simp: startsWith_iff)
    with Some True show ?thesis
      by (auto simp: isAuthorized_def replace_prefix split: option.splits)
  qed
qed

text \<open>
  C10. With the secret configured, \<open>isAuthorized\<close> returns true exactly for an
  Authorization header \<open>Basic \<close> followed by a payload that \<open>atob\<close> decodes to
  \<open>u:secret\<close> or \<open>u:secret:...\<close> with no colon in \<open>u\<close> and none in the secret:
  the text between the first and the second colon is the secret, and \<open>u\<close> is not
  looked at. So every payload that decodes to \<open>u:secret\<close> is accepted, whatever the
  user name \<open>u\<close>; and when the secret itself contains a colon no header is accepted.
\<close>

theorem credential_check:
  assumes "ADMIN_PASSWORD env = Some secret"
  shows "(isAuthorized request env = Inr True \<longleftrightarrow>
           (\<exists>payload u rest.
               authorization request = Some (js ''Basic '' @ payload)
             \<and> atob payload = Some (u @ 0x3A # secret @ rest)
             \<and> 0x3A \<notin> set u \<and> 0x3A \<notin> set secret
             \<and> (rest = [] \<or> (\<exists>t. rest = 0x3A # t))))
       \<and> (\<forall>u payload.
             0x3A \<notin> set u \<and> 0x3A \<notin> set secret
             \<and> authorization request = Some (js ''Basic '' @ payload)
             \<and> atob payload = Some (u @ 0x3A # secret) \<longrightarrow>
             isAuthorized request env = Inr True)
       \<and> (0x3A \<in> set secret \<longrightarrow> isAuthorized request env \<noteq> Inr True)"
proof -
  have main: "isAuthorized request env = Inr True \<longleftrightarrow>
           (\<exists>payload u rest.
               authorization request = Some (js ''Basic '' @ payload)
             \<and> atob payload = Some (u @ 0x3A # secret @ rest)
             \<and> 0x3A \<notin> set u \<and> 0x3A \<notin> set secret
             \<and> (rest = [] \<or> (\<exists>t. rest = 0x3A # t)))"
    unfolding isAuthorized_iff assms pass_of_iff by blast
  have every: "\<forall>u payload.
             0x3A \<notin> set u \<and> 0x3A \<notin> set secret
             \<and> authorization request = Some (js ''Basic '' @ payload)
             \<and> atob payload = Some (u @ 0x3A # secret) \<longrightarrow>
             isAuthorized request env = Inr True"
    unfolding main by (metis append_Nil2)
  have colon: "0x3A \<in> set secret \<longrightarrow> isAuthorized request env \<noteq> Inr True"
    unfolding main by blast
  from main every colon show ?thesis by blast
qed

lemmas atob_defs = atob_def is_ascii_whitespace_def base64_value_def js_def Let_def

lemma atob_examples:
  "atob (js ''YWRtaW46aHVudGVyMg=='') = Some (js ''admin'' @ 0x3A # js ''hunter2'')"
  "atob (js ''bW9kOmh1bnRlcjI='') = Some (js ''mod'' @ 0x3A # js ''hunter2'')"
  "atob (js ''dTpzZTpjcmV0'') = Some (js ''u:se:cret'')"
  by (simp_all add: atob_defs)

theorem credential_check_witness:
  "ADMIN_PASSWORD example_env = Some (js ''hunter2'')
   \<and> 0x3A \<notin> set (js ''hunter2'') \<and> 0x3A \<notin> set (js ''admin'') \<and> 0x3A \<notin> set (js ''mod'')
   \<and> authorization admin_request = Some (js ''Basic '' @ js ''YWRtaW46aHVudGVyMg=='')
   \<and> atob (js ''YWRtaW46aHVudGVyMg=='') = Some (js ''admin'' @ 0x3A # js ''hunter2'')
   \<and> isAuthorized admin_request example_env = Inr True
   \<and> authorization mod_request = Some (js ''Basic '' @ js ''bW9kOmh1bnRlcjI='')
   \<and> atob (js ''bW9kOmh1bnRlcjI='') = Some (js ''mod'' @ 0x3A # js ''hunter2'')
   \<and> isAuthorized mod_request example_env = Inr True
   \<and> ADMIN_PASSWORD colon_env = Some (js ''se:cret'') \<and> 0x3A \<in> set (js ''se:cret'')
   \<and> atob (js ''dTpzZTpjcmV0'') = Some (js ''u:se:cret'')
   \<and> isAuthorized colon_request colon_env \<noteq> Inr True"
proof -
  have secrets: "ADMIN_PASSWORD example_env = Some (js ''hunter2'')"
    "ADMIN_PASSWORD colon_env = Some (js ''se:cret'')"
    by (simp_all add: example_env_def colon_env_def)
  have colons: "0x3A \<notin> set (js ''hunter2'')" "0x3A \<notin> set (js ''admin'')"
    "0x3A \<notin> set (js ''mod'')" "0x3A \<in> set (js ''se:cret'')"
    by (simp_all add: js_def)
  have headers: "authorization admin_request = Some (js ''Basic '' @ js ''YWRtaW46aHVudGVyMg=='')"
    "authorization mod_request = Some (js ''Basic '' @ js ''bW9kOmh1bnRlcjI='')"
    by (simp_all add: admin_request_def mod_request_def js_def)
  from credential_check [OF secrets(1), of admin_request] colons headers(1) atob_examples(1)
  have admin: "isAuthorized admin_request example_env = Inr True" by blast
  from credential_check [OF secrets(1), of mod_request] colons headers(2) atob_examples(2)
  have moderator: "isAuthorized mod_request example_env = Inr True" by blast
  from credential_check [OF secrets(2), of colon_request] colons(4)
  have colon: "isAuthorized colon_request colon_env \<noteq> Inr True" by blast
  from secrets colons headers atob_examples admin moderator colon show ?thesis by blast
qed

end
